theory Spec2Isabelle
  imports
    Main
    "HOL-Library.Char_ord"
    "HOL-Library.List_Lexorder"
    "HOL-Library.Product_Lexorder"
begin

section \<open>The ATT&CK flattener of app.py\<close>

text \<open>
  This theory embeds the function \<^verbatim>\<open>load_attack\<close> of \<^verbatim>\<open>src/app.py\<close> (lines 8 to 95).
  The function reads two parsed JSON documents with \<^verbatim>\<open>dict.get\<close>, builds two lookup
  tables of tactics, collects one row per (tactic, technique) association, and hands
  the rows to pandas for de-duplication and sorting.

  Modelling decisions:
  \<^item> A JSON object is a record whose fields are options: \<open>None\<close> is a key that is
    absent, \<open>Some v\<close> a key that is present. A field that is present holds a value of
    the JSON type STIX gives it (a string, a boolean, a list of strings, a list of
    objects); wrongly typed values are outside the model.
  \<^item> A Python string is a \<open>string\<close> (its UTF-8 bytes); the order of \<open>string\<close> used
    below is the lexicographic order of the bytes, which is Python's order of the code
    points.
  \<^item> A Python dictionary that is only read by key is a map; a key that may be
    \<^verbatim>\<open>None\<close> has type \<open>string option\<close>.
  \<^item> An exception is a value \<open>Inl e\<close> of the result; the data frame that is
    returned is \<open>Inr\<close> of the list of its rows, in index order.
\<close>

subsection \<open>Data\<close>

record external_reference =
  source_name :: "string option"
  external_id :: "string option"

record kill_chain_phase =
  kill_chain_name :: "string option"
  phase_name :: "string option"

text \<open>
  One record serves every object of a bundle: the code reads the keys below and no
  other. The key \<^verbatim>\<open>id\<close> is the field \<open>stix_id\<close> and the key \<^verbatim>\<open>type\<close> the field
  \<open>obj_type\<close>.
\<close>

record stix_object =
  obj_type :: "string option"
  stix_id :: "string option"
  name :: "string option"
  x_mitre_shortname :: "string option"
  external_references :: "external_reference list option"
  revoked :: "bool option"
  x_mitre_deprecated :: "bool option"
  x_mitre_domains :: "string list option"
  kill_chain_phases :: "kill_chain_phase list option"
  x_mitre_tactics :: "string list option"
  tactic_refs :: "string list option"

record stix_bundle =
  objects :: "stix_object list option"

text \<open>
  The values of \<^verbatim>\<open>tactics_by_shortname\<close> have the keys \<^verbatim>\<open>tactic_name\<close> and
  \<^verbatim>\<open>tactic_id\<close>; the values of \<^verbatim>\<open>tactics_by_id\<close> have \<^verbatim>\<open>shortname\<close> in addition, and
  a row has \<^verbatim>\<open>technique_name\<close> and \<^verbatim>\<open>technique_id\<close> in addition.
\<close>

record tactic_entry =
  tactic_name :: string
  tactic_id :: string

record tactic_by_id = tactic_entry +
  shortname :: "string option"

record row = tactic_entry +
  technique_name :: string
  technique_id :: string

datatype py_error = KeyError string

type_synonym data_frame = "row list"

subsection \<open>Reading a dictionary\<close>

text \<open>\<^verbatim>\<open>d.get(key, default)\<close>: the default stands in for an absent key only.\<close>

definition get :: "'a option \<Rightarrow> 'a \<Rightarrow> 'a" where
  "get v dflt = (case v of None \<Rightarrow> dflt | Some x \<Rightarrow> x)"

text \<open>The truth value of \<^verbatim>\<open>obj.get(key)\<close> for a boolean field: \<^verbatim>\<open>None\<close> is false.\<close>

definition truthy :: "bool option \<Rightarrow> bool" where
  "truthy v = (case v of None \<Rightarrow> False | Some b \<Rightarrow> b)"

subsection \<open>Lines 10 to 15: the order of the matrix\<close>

fun matrix_tactic_order :: "stix_object list \<Rightarrow> string list" where
  "matrix_tactic_order [] = []"
| "matrix_tactic_order (obj # objs) =
     (if obj_type obj = Some ''x-mitre-matrix'' then get (tactic_refs obj) []
      else matrix_tactic_order objs)"

subsection \<open>Lines 26 to 30 and 52 to 56: the code of an object\<close>

text \<open>
  The loop stops at the first reference whose \<^verbatim>\<open>source_name\<close> is \<^verbatim>\<open>mitre-attack\<close>;
  the code stays empty when the loop ends without one.
\<close>

fun resolve_code :: "external_reference list \<Rightarrow> string" where
  "resolve_code [] = ''''"
| "resolve_code (ref # refs) =
     (if source_name ref = Some ''mitre-attack'' then get (external_id ref) ''''
      else resolve_code refs)"

definition mitre_code :: "stix_object \<Rightarrow> string" where
  "mitre_code obj = resolve_code (get (external_references obj) [])"

subsection \<open>Lines 17 to 40: the two tables of tactics\<close>

type_synonym tactics_by_id = "string option \<rightharpoonup> tactic_by_id"
type_synonym tactics_by_shortname = "string option \<rightharpoonup> tactic_entry"

definition tactic_step ::
  "tactics_by_id \<times> tactics_by_shortname \<Rightarrow> stix_object \<Rightarrow>
   tactics_by_id \<times> tactics_by_shortname" where
  "tactic_step tabs obj =
     (if obj_type obj = Some ''x-mitre-tactic'' then
        (let short = x_mitre_shortname obj;
             nm = get (name obj) '''';
             code = mitre_code obj
         in ((fst tabs)(stix_id obj \<mapsto>
               \<lparr>tactic_name = nm, tactic_id = code, shortname = short\<rparr>),
             (snd tabs)(short \<mapsto> \<lparr>tactic_name = nm, tactic_id = code\<rparr>)))
      else tabs)"

definition tactic_tables :: "stix_object list \<Rightarrow> tactics_by_id \<times> tactics_by_shortname" where
  "tactic_tables objs = foldl tactic_step (Map.empty, Map.empty) objs"

subsection \<open>Lines 42 to 82: the rows\<close>

definition mk_row :: "tactic_entry \<Rightarrow> string \<Rightarrow> string \<Rightarrow> row" where
  "mk_row t tech_name tech_code =
     \<lparr>tactic_name = tactic_name t, tactic_id = tactic_id t,
      technique_name = tech_name, technique_id = tech_code\<rparr>"

text \<open>
  Lines 66 and 76: the looked-up entry is a dictionary of two keys, which is true
  whenever it is found; only a missing entry is skipped.
\<close>

definition lookup_row ::
  "tactics_by_shortname \<Rightarrow> string option \<Rightarrow> string \<Rightarrow> string \<Rightarrow> row list" where
  "lookup_row by_short short tech_name tech_code =
     (case by_short short of
        None \<Rightarrow> []
      | Some t \<Rightarrow> [mk_row t tech_name tech_code])"

fun phase_rows ::
  "string list \<Rightarrow> tactics_by_shortname \<Rightarrow> string \<Rightarrow> string \<Rightarrow>
   kill_chain_phase list \<Rightarrow> row list" where
  "phase_rows kill_chain_key by_short tech_name tech_code [] = []"
| "phase_rows kill_chain_key by_short tech_name tech_code (phase # phases) =
     (if kill_chain_name phase \<in> Some ` set kill_chain_key
      then lookup_row by_short (phase_name phase) tech_name tech_code
      else [])
     @ phase_rows kill_chain_key by_short tech_name tech_code phases"

fun tactic_rows ::
  "tactics_by_shortname \<Rightarrow> string \<Rightarrow> string \<Rightarrow> string list \<Rightarrow> row list" where
  "tactic_rows by_short tech_name tech_code [] = []"
| "tactic_rows by_short tech_name tech_code (short # shorts) =
     lookup_row by_short (Some short) tech_name tech_code
     @ tactic_rows by_short tech_name tech_code shorts"

text \<open>The body of the loop of line 44 for one object: the rows it appends.\<close>

definition technique_rows ::
  "string \<Rightarrow> string list \<Rightarrow> tactics_by_shortname \<Rightarrow> stix_object \<Rightarrow> row list" where
  "technique_rows domain_name kill_chain_key by_short obj =
     (if obj_type obj \<noteq> Some ''attack-pattern'' then []
      else if truthy (revoked obj) \<or> truthy (x_mitre_deprecated obj) then []
      else if domain_name \<notin> set (get (x_mitre_domains obj) []) then []
      else
        (let tech_code = mitre_code obj in
         if tech_code = '''' \<or> CHR ''.'' \<in> set tech_code then []
         else
           (let tech_name = get (name obj) '''' in
            phase_rows kill_chain_key by_short tech_name tech_code
              (get (kill_chain_phases obj) [])
            @ tactic_rows by_short tech_name tech_code (get (x_mitre_tactics obj) []))))"

fun collect_rows ::
  "string \<Rightarrow> string list \<Rightarrow> tactics_by_shortname \<Rightarrow> stix_object list \<Rightarrow> row list" where
  "collect_rows domain_name kill_chain_key by_short [] = []"
| "collect_rows domain_name kill_chain_key by_short (obj # objs) =
     technique_rows domain_name kill_chain_key by_short obj
     @ collect_rows domain_name kill_chain_key by_short objs"

subsection \<open>Lines 86 to 90: the sort position of a tactic name\<close>

fun sort_order_loop ::
  "tactics_by_id \<Rightarrow> nat \<Rightarrow> string list \<Rightarrow> (string \<rightharpoonup> nat) \<Rightarrow> (string \<rightharpoonup> nat)" where
  "sort_order_loop by_id i [] order = order"
| "sort_order_loop by_id i (tac_id # tac_ids) order =
     sort_order_loop by_id (Suc i) tac_ids
       (case by_id (Some tac_id) of
          None \<Rightarrow> order
        | Some t \<Rightarrow> order(tactic_name t \<mapsto> i))"

definition tactic_sort_order :: "tactics_by_id \<Rightarrow> string list \<Rightarrow> (string \<rightharpoonup> nat)" where
  "tactic_sort_order by_id tactic_order = sort_order_loop by_id 0 tactic_order Map.empty"

subsection \<open>Lines 84 and 92 to 94: the data frame\<close>

text \<open>
  \<^verbatim>\<open>drop_duplicates\<close> keeps the first of equal rows and the order of what it keeps.
\<close>

fun drop_duplicates_from :: "'a list \<Rightarrow> 'a list \<Rightarrow> 'a list" where
  "drop_duplicates_from seen [] = []"
| "drop_duplicates_from seen (r # rs) =
     (if r \<in> set seen then drop_duplicates_from seen rs
      else r # drop_duplicates_from (r # seen) rs)"

definition drop_duplicates :: "'a list \<Rightarrow> 'a list" where
  "drop_duplicates rs = drop_duplicates_from [] rs"

text \<open>
  The column \<^verbatim>\<open>tactic_sort\<close> holds the position of the row's tactic name, or NaN
  (\<open>None\<close>) when \<^verbatim>\<open>tactic_sort_order\<close> has no such key. \<^verbatim>\<open>sort_values\<close> by two columns
  is a stable sort by the pair of keys, with NaN after every number
  (\<^verbatim>\<open>na_position='last'\<close>); \<open>sort_key\<close> is the stable insertion sort of the library. The key \<open>(False, i)\<close> stands for the number \<open>i\<close> and
  \<open>(True, 0)\<close> for NaN.
\<close>

definition na_last :: "nat option \<Rightarrow> bool \<times> nat" where
  "na_last v = (case v of None \<Rightarrow> (True, 0) | Some i \<Rightarrow> (False, i))"

definition sort_columns :: "(string \<rightharpoonup> nat) \<Rightarrow> row \<Rightarrow> (bool \<times> nat) \<times> string" where
  "sort_columns order r = (na_last (order (tactic_name r)), technique_name r)"

definition sort_values :: "(string \<rightharpoonup> nat) \<Rightarrow> data_frame \<Rightarrow> data_frame" where
  "sort_values order df = sort_key (sort_columns order) df"

subsection \<open>The function\<close>

text \<open>
  \<^verbatim>\<open>pd.DataFrame(rows)\<close> of an empty list has no column, so that line 92 raises
  \<^verbatim>\<open>KeyError: 'tactic_name'\<close> when no row was collected.
\<close>

definition load_attack ::
  "string \<Rightarrow> stix_bundle \<Rightarrow> stix_bundle \<Rightarrow> string list \<Rightarrow> py_error + data_frame" where
  "load_attack domain_name stix_data matrix_data kill_chain_key =
     (let tactic_order = matrix_tactic_order (get (objects matrix_data) []);
          tabs = tactic_tables (get (objects stix_data) []);
          rows = collect_rows domain_name kill_chain_key (snd tabs)
                   (get (objects stix_data) []);
          df = drop_duplicates rows;
          order = tactic_sort_order (fst tabs) tactic_order
      in if rows = [] then Inl (KeyError ''tactic_name'')
         else Inr (sort_values order df))"

subsection \<open>Notions used in the statements\<close>

text \<open>The value of \<^verbatim>\<open>rows\<close> at line 84, before pandas sees it.\<close>

definition rows_of :: "string \<Rightarrow> stix_bundle \<Rightarrow> string list \<Rightarrow> row list" where
  "rows_of domain_name stix_data kill_chain_key =
     collect_rows domain_name kill_chain_key
       (snd (tactic_tables (get (objects stix_data) []))) (get (objects stix_data) [])"

text \<open>
  An object is retained when it passes every \<^verbatim>\<open>continue\<close> of lines 45 to 58: it is an
  attack-pattern, neither revoked nor deprecated, of the requested domain, and its code
  is neither empty nor that of a sub-technique.
\<close>

definition retained :: "string \<Rightarrow> stix_object \<Rightarrow> bool" where
  "retained domain_name obj =
     (obj_type obj = Some ''attack-pattern''
      \<and> \<not> truthy (revoked obj) \<and> \<not> truthy (x_mitre_deprecated obj)
      \<and> domain_name \<in> set (get (x_mitre_domains obj) [])
      \<and> mitre_code obj \<noteq> '''' \<and> CHR ''.'' \<notin> set (mitre_code obj))"

text \<open>
  The position that lines 87 to 90 give a tactic name, stated without the loop: the
  greatest index of \<^verbatim>\<open>tactic_refs\<close> whose reference is the id of a tactic of that
  name. A name that no reference leads to has no position. The position of a row is
  that of the tactic name it carries.
\<close>

definition tactic_name_of :: "tactics_by_id \<Rightarrow> string \<Rightarrow> string option" where
  "tactic_name_of by_id tac_id = map_option tactic_name (by_id (Some tac_id))"

definition name_at :: "tactics_by_id \<Rightarrow> string list \<Rightarrow> nat \<Rightarrow> string option" where
  "name_at by_id tactic_order i = tactic_name_of by_id (tactic_order ! i)"

definition tactic_position :: "tactics_by_id \<Rightarrow> string list \<Rightarrow> string \<Rightarrow> nat option" where
  "tactic_position by_id tactic_order n =
     find (\<lambda>i. name_at by_id tactic_order i = Some n) (rev [0..<length tactic_order])"





subsection \<open>The objects of the scenarios\<close>

text \<open>
  A tactic with its STIX id, name, shortname and ATT&CK code; an attack-pattern with its
  name, code, domains, kill-chain phases and direct tactics; a matrix with its
  references.
\<close>

definition a_tactic :: "string \<Rightarrow> string \<Rightarrow> string option \<Rightarrow> string \<Rightarrow> stix_object" where
  "a_tactic i n short code =
     \<lparr>obj_type = Some ''x-mitre-tactic'', stix_id = Some i, name = Some n,
      x_mitre_shortname = short,
      external_references =
        Some [\<lparr>source_name = Some ''mitre-attack'', external_id = Some code\<rparr>],
      revoked = None, x_mitre_deprecated = None, x_mitre_domains = None,
      kill_chain_phases = None, x_mitre_tactics = None, tactic_refs = None\<rparr>"

definition a_technique ::
  "string \<Rightarrow> string \<Rightarrow> string list \<Rightarrow> kill_chain_phase list \<Rightarrow> string list option \<Rightarrow>
   stix_object" where
  "a_technique n code domains phases tactics =
     \<lparr>obj_type = Some ''attack-pattern'', stix_id = None, name = Some n,
      x_mitre_shortname = None,
      external_references =
        Some [\<lparr>source_name = Some ''mitre-attack'', external_id = Some code\<rparr>],
      revoked = Some False, x_mitre_deprecated = Some False,
      x_mitre_domains = Some domains,
      kill_chain_phases = Some phases, x_mitre_tactics = tactics, tactic_refs = None\<rparr>"

definition a_matrix :: "string list \<Rightarrow> stix_object" where
  "a_matrix refs =
     \<lparr>obj_type = Some ''x-mitre-matrix'', stix_id = None, name = None,
      x_mitre_shortname = None, external_references = None,
      revoked = None, x_mitre_deprecated = None, x_mitre_domains = None,
      kill_chain_phases = None, x_mitre_tactics = None, tactic_refs = Some refs\<rparr>"

definition a_phase :: "string \<Rightarrow> string option \<Rightarrow> kill_chain_phase" where
  "a_phase chain phase = \<lparr>kill_chain_name = Some chain, phase_name = phase\<rparr>"

subsection \<open>Example inputs\<close>

text \<open>
  Three tactics, of which the matrix orders the first two, and three techniques of the
  enterprise domain; the last technique names its tactic both in a kill-chain phase and
  in \<^verbatim>\<open>x_mitre_tactics\<close>.
\<close>

definition example_tactics :: "stix_object list" where
  "example_tactics =
     [a_tactic ''x-mitre-tactic--1'' ''Initial Access'' (Some ''initial-access'') ''TA0001'',
      a_tactic ''x-mitre-tactic--2'' ''Execution'' (Some ''execution'') ''TA0002'',
      a_tactic ''x-mitre-tactic--3'' ''Impact'' (Some ''impact'') ''TA0040'']"

definition example_matrix :: stix_bundle where
  "example_matrix = \<lparr>objects = Some [a_matrix [''x-mitre-tactic--1'', ''x-mitre-tactic--2'']]\<rparr>"

definition example_techniques :: "stix_object list" where
  "example_techniques =
     [a_technique ''Scripting'' ''T1064'' [''enterprise-attack'']
        [a_phase ''mitre-attack'' (Some ''execution''),
         a_phase ''mitre-attack'' (Some ''impact'')] None,
      a_technique ''Phishing'' ''T1566'' [''enterprise-attack'']
        [a_phase ''mitre-attack'' (Some ''initial-access'')] None,
      a_technique ''Command Line'' ''T1059'' [''enterprise-attack'']
        [a_phase ''mitre-attack'' (Some ''execution'')] (Some [''execution''])]"

definition example_stix :: stix_bundle where
  "example_stix = \<lparr>objects = Some (example_tactics @ example_techniques)\<rparr>"

definition revoked_technique :: stix_object where
  "revoked_technique =
     (a_technique ''Old Technique'' ''T1000'' [''enterprise-attack'']
        [a_phase ''mitre-attack'' (Some ''execution'')] None)\<lparr>revoked := Some True\<rparr>"

definition sub_technique :: stix_object where
  "sub_technique =
     a_technique ''PowerShell'' ''T1059.001'' [''enterprise-attack'']
        [a_phase ''mitre-attack'' (Some ''execution'')] None"

definition several_references :: stix_object where
  "several_references =
     (a_tactic ''x-mitre-tactic--2'' ''Execution'' (Some ''execution'') ''TA0002'')
       \<lparr>external_references := Some
          [\<lparr>source_name = Some ''capec'', external_id = Some ''CAPEC-1''\<rparr>,
           \<lparr>source_name = Some ''mitre-attack'', external_id = Some ''TA0002''\<rparr>,
           \<lparr>source_name = Some ''mitre-attack'', external_id = Some ''TA9999''\<rparr>]\<rparr>"

definition foreign_references :: stix_object where
  "foreign_references =
     (a_technique ''Scripting'' ''T1064'' [''enterprise-attack''] [] None)
       \<lparr>external_references := Some
          [\<lparr>source_name = Some ''capec'', external_id = Some ''CAPEC-1''\<rparr>]\<rparr>"


text \<open>
  Two tactics of one name, of which the matrix refers to the first only, and a
  technique of the second; two tactics without shortname and a technique whose phase
  has no name.
\<close>

definition shared_name_stix :: stix_bundle where
  "shared_name_stix =
     \<lparr>objects = Some
        [a_tactic ''a'' ''X'' (Some ''x1'') ''TA1'',
         a_tactic ''b'' ''Y'' (Some ''y'') ''TA2'',
         a_tactic ''c'' ''X'' (Some ''x2'') ''TA3'',
         a_technique ''N1'' ''T1'' [''enterprise-attack'']
           [a_phase ''mitre-attack'' (Some ''x2'')] None,
         a_technique ''N2'' ''T2'' [''enterprise-attack'']
           [a_phase ''mitre-attack'' (Some ''y'')] None]\<rparr>"

definition shared_name_matrix :: stix_bundle where
  "shared_name_matrix = \<lparr>objects = Some [a_matrix [''a'', ''b'']]\<rparr>"

definition two_shortnameless_stix :: stix_bundle where
  "two_shortnameless_stix =
     \<lparr>objects = Some
        [a_tactic ''x-mitre-tactic--8'' ''First'' None ''TA1'',
         a_tactic ''x-mitre-tactic--9'' ''Second'' None ''TA2'',
         a_technique ''Scripting'' ''T1064'' [''enterprise-attack'']
           [a_phase ''mitre-attack'' None] None]\<rparr>"

section \<open>Lemmas\<close>

text \<open>The equations that evaluate the function on a concrete input.\<close>

lemmas eval_defs =
  load_attack_def get_def truthy_def tactic_tables_def tactic_step_def mitre_code_def
  technique_rows_def lookup_row_def mk_row_def drop_duplicates_def sort_values_def
  sort_columns_def na_last_def tactic_sort_order_def
  a_tactic_def a_technique_def a_matrix_def a_phase_def Let_def

lemmas example_defs =
  example_tactics_def example_matrix_def example_techniques_def example_stix_def
  revoked_technique_def sub_technique_def several_references_def foreign_references_def
  shared_name_stix_def shared_name_matrix_def
  two_shortnameless_stix_def

subsection \<open>The data frame\<close>


lemma set_drop_duplicates_from:
  "set (drop_duplicates_from seen rs) = set rs - set seen"
  by (induction rs arbitrary: seen) auto

lemma distinct_drop_duplicates_from:
  "distinct (drop_duplicates_from seen rs)"
  by (induction rs arbitrary: seen) (auto simp: set_drop_duplicates_from)

lemma set_drop_duplicates: "set (drop_duplicates rs) = set rs"
  by (simp add: drop_duplicates_def set_drop_duplicates_from)

lemma distinct_drop_duplicates: "distinct (drop_duplicates rs)"
  by (simp add: drop_duplicates_def distinct_drop_duplicates_from)

lemma set_sort_values: "set (sort_values order df) = set df"
  by (simp add: sort_values_def)

lemma distinct_sort_values: "distinct (sort_values order df) = distinct df"
  by (simp add: sort_values_def)

lemma load_attack_eq:
  "load_attack domain_name stix_data matrix_data kill_chain_key =
     (if rows_of domain_name stix_data kill_chain_key = [] then Inl (KeyError ''tactic_name'')
      else Inr (sort_values
        (tactic_sort_order (fst (tactic_tables (get (objects stix_data) [])))
           (matrix_tactic_order (get (objects matrix_data) [])))
        (drop_duplicates (rows_of domain_name stix_data kill_chain_key))))"
  by (simp add: load_attack_def rows_of_def Let_def)

lemma load_attack_Inr:
  assumes "load_attack domain_name stix_data matrix_data kill_chain_key = Inr df"
  shows "set df = set (rows_of domain_name stix_data kill_chain_key)"
    and "distinct df"
    and "rows_of domain_name stix_data kill_chain_key \<noteq> []"
  using assms
  by (auto simp: load_attack_eq set_sort_values set_drop_duplicates
      distinct_sort_values distinct_drop_duplicates split: if_splits)

lemma load_attack_returns:
  assumes "rows_of domain_name stix_data kill_chain_key \<noteq> []"
  shows "\<exists>df. load_attack domain_name stix_data matrix_data kill_chain_key = Inr df"
  using assms by (simp add: load_attack_eq)

lemma collect_rows_append:
  "collect_rows d k t (xs @ ys) = collect_rows d k t xs @ collect_rows d k t ys"
  by (induction xs) auto

lemma set_collect_rows:
  "set (collect_rows d k t objs) = (\<Union>obj \<in> set objs. set (technique_rows d k t obj))"
  by (induction objs) auto

lemma in_lookup_row:
  "r \<in> set (lookup_row t short tn tc) \<longleftrightarrow> (\<exists>e. t short = Some e \<and> r = mk_row e tn tc)"
  by (cases "t short") (auto simp: lookup_row_def)

lemma in_phase_rows:
  "r \<in> set (phase_rows k t tn tc phases) \<longleftrightarrow>
     (\<exists>phase \<in> set phases. kill_chain_name phase \<in> Some ` set k
        \<and> (\<exists>e. t (phase_name phase) = Some e \<and> r = mk_row e tn tc))"
  by (induction phases) (auto simp: in_lookup_row)

lemma in_tactic_rows:
  "r \<in> set (tactic_rows t tn tc shorts) \<longleftrightarrow>
     (\<exists>short \<in> set shorts. \<exists>e. t (Some short) = Some e \<and> r = mk_row e tn tc)"
  by (induction shorts) (auto simp: in_lookup_row)

lemma technique_rows_retained:
  "technique_rows d k t obj =
     (if retained d obj
      then phase_rows k t (get (name obj) '''') (mitre_code obj) (get (kill_chain_phases obj) [])
           @ tactic_rows t (get (name obj) '''') (mitre_code obj) (get (x_mitre_tactics obj) [])
      else [])"
  by (auto simp: technique_rows_def retained_def Let_def)

lemma technique_rows_code:
  assumes "r \<in> set (technique_rows d k t obj)"
  shows "retained d obj" and "technique_id r = mitre_code obj"
    and "technique_name r = get (name obj) ''''"
  using assms
  by (auto simp: technique_rows_retained in_phase_rows in_tactic_rows mk_row_def
      split: if_splits)

lemma tactic_step_skip:
  "obj_type obj \<noteq> Some ''x-mitre-tactic'' \<Longrightarrow> tactic_step tabs obj = tabs"
  by (simp add: tactic_step_def)

lemma snd_tactic_step:
  "snd (tactic_step tabs obj) =
     (if obj_type obj = Some ''x-mitre-tactic''
      then (snd tabs)(x_mitre_shortname obj \<mapsto>
             \<lparr>tactic_name = get (name obj) '''', tactic_id = mitre_code obj\<rparr>)
      else snd tabs)"
  by (simp add: tactic_step_def Let_def)

lemma tactic_tables_skip:
  assumes "obj_type obj \<noteq> Some ''x-mitre-tactic''"
  shows "tactic_tables (pre @ obj # post) = tactic_tables (pre @ post)"
  using assms by (simp add: tactic_tables_def tactic_step_skip)

lemma foldl_tactic_step_keeps:
  assumes "\<forall>obj \<in> set post.
      \<not> (obj_type obj = Some ''x-mitre-tactic'' \<and> x_mitre_shortname obj = short)"
  shows "snd (foldl tactic_step tabs post) short = snd tabs short"
  using assms
proof (induction post rule: rev_induct)
  case Nil
  show ?case by simp
next
  case (snoc x xs)
  then show ?case by (auto simp: snd_tactic_step)
qed

lemma by_shortname_at_last:
  assumes "obj_type tac = Some ''x-mitre-tactic''"
    and "\<forall>obj \<in> set post.
      \<not> (obj_type obj = Some ''x-mitre-tactic'' \<and> x_mitre_shortname obj = x_mitre_shortname tac)"
  shows "snd (tactic_tables (pre @ tac # post)) (x_mitre_shortname tac)
       = Some \<lparr>tactic_name = get (name tac) '''', tactic_id = mitre_code tac\<rparr>"
proof -
  have "snd (tactic_tables (pre @ tac # post)) (x_mitre_shortname tac)
      = snd (tactic_step (foldl tactic_step (Map.empty, Map.empty) pre) tac)
          (x_mitre_shortname tac)"
    using foldl_tactic_step_keeps[OF assms(2)] by (simp add: tactic_tables_def)
  with assms(1) show ?thesis by (simp add: snd_tactic_step)
qed

subsection \<open>The sort position\<close>



lemma name_at_snoc_last: "name_at by_id (ids @ [x]) (length ids) = tactic_name_of by_id x"
  by (simp add: name_at_def)

lemma name_at_snoc_below: "j < length ids \<Longrightarrow> name_at by_id (ids @ [x]) j = name_at by_id ids j"
  by (simp add: name_at_def nth_append)

lemma tactic_position_snoc:
  "tactic_position by_id (ids @ [x]) n =
     (if tactic_name_of by_id x = Some n then Some (length ids)
      else tactic_position by_id ids n)"
proof -
  have "find (\<lambda>i. name_at by_id (ids @ [x]) i = Some n) (rev [0..<length ids])
      = find (\<lambda>i. name_at by_id ids i = Some n) (rev [0..<length ids])"
    by (rule find_cong) (simp_all add: name_at_snoc_below)
  then show ?thesis
    by (simp add: tactic_position_def name_at_snoc_last)
qed




lemma tactic_position_Some:
  "tactic_position by_id tactic_order n = Some i \<longleftrightarrow>
     i < length tactic_order \<and> name_at by_id tactic_order i = Some n
     \<and> (\<forall>j. i < j \<and> j < length tactic_order \<longrightarrow> name_at by_id tactic_order j \<noteq> Some n)"
proof (induction tactic_order rule: rev_induct)
  case Nil
  show ?case by (simp add: tactic_position_def)
next
  case (snoc x xs)
  let ?P = "\<lambda>ys i. i < length ys \<and> name_at by_id ys i = Some n
     \<and> (\<forall>j. i < j \<and> j < length ys \<longrightarrow> name_at by_id ys j \<noteq> Some n)"
  show ?case
  proof (cases "tactic_name_of by_id x = Some n")
    case True
    have "?P (xs @ [x]) i \<longleftrightarrow> i = length xs"
    proof
      assume P: "?P (xs @ [x]) i"
      show "i = length xs"
      proof (rule ccontr)
        assume "i \<noteq> length xs"
        with P have "i < length xs" by simp
        with P have "name_at by_id (xs @ [x]) (length xs) \<noteq> Some n" by simp
        with True show False by (simp add: name_at_snoc_last)
      qed
    next
      assume "i = length xs"
      with True show "?P (xs @ [x]) i" by (auto simp: name_at_snoc_last)
    qed
    with True show ?thesis
      by (auto simp: tactic_position_snoc)
  next
    case False
    have "?P (xs @ [x]) i \<longleftrightarrow> ?P xs i"
    proof
      assume P: "?P (xs @ [x]) i"
      have "i \<noteq> length xs"
        using P False by (auto simp: name_at_snoc_last)
      with P have lt: "i < length xs" by simp
      with P show "?P xs i"
        by (auto simp: name_at_snoc_below)
    next
      assume P: "?P xs i"
      show "?P (xs @ [x]) i"
      proof (intro conjI allI impI)
        show "i < length (xs @ [x])" using P by simp
        show "name_at by_id (xs @ [x]) i = Some n" using P by (simp add: name_at_snoc_below)
        fix j assume j: "i < j \<and> j < length (xs @ [x])"
        show "name_at by_id (xs @ [x]) j \<noteq> Some n"
        proof (cases "j = length xs")
          case True
          with False show ?thesis by (simp add: name_at_snoc_last)
        next
          case False
          with j have "j < length xs" by simp
          with P j show ?thesis by (simp add: name_at_snoc_below)
        qed
      qed
    qed
    with False snoc.IH show ?thesis
      by (simp add: tactic_position_snoc)
  qed
qed

subsection \<open>Rows and references\<close>

lemma rows_of_iff:
  "r \<in> set (rows_of d s k) \<longleftrightarrow>
     (\<exists>obj \<in> set (get (objects s) []).
        r \<in> set (technique_rows d k (snd (tactic_tables (get (objects s) []))) obj))"
  by (simp add: rows_of_def set_collect_rows)

lemma rows_of_skip:
  assumes "obj_type obj \<noteq> Some ''x-mitre-tactic''"
    and "technique_rows d k (snd (tactic_tables (pre @ post))) obj = []"
  shows "rows_of d \<lparr>objects = Some (pre @ obj # post)\<rparr> k
       = rows_of d \<lparr>objects = Some (pre @ post)\<rparr> k"
  using assms
  by (simp add: rows_of_def get_def tactic_tables_skip collect_rows_append)

lemma load_attack_skip:
  assumes "obj_type obj \<noteq> Some ''x-mitre-tactic''"
    and "technique_rows d k (snd (tactic_tables (pre @ post))) obj = []"
  shows "load_attack d \<lparr>objects = Some (pre @ obj # post)\<rparr> m k
       = load_attack d \<lparr>objects = Some (pre @ post)\<rparr> m k"
  using rows_of_skip[OF assms] assms(1)
  by (simp add: load_attack_eq get_def tactic_tables_skip)

lemma count_list_distinct:
  "distinct xs \<Longrightarrow> x \<in> set xs \<Longrightarrow> count_list xs x = 1"
  by (induction xs) auto

lemma count_list_pos: "x \<in> set xs \<Longrightarrow> 1 \<le> count_list xs x"
  using count_list_0_iff[of xs x] by (cases "count_list xs x") auto

lemma count_list_collect_rows:
  assumes "obj \<in> set objs"
  shows "count_list (technique_rows d k t obj) r \<le> count_list (collect_rows d k t objs) r"
proof -
  from assms obtain pre post where "objs = pre @ obj # post"
    by (auto dest: split_list)
  then show ?thesis by (simp add: collect_rows_append)
qed

lemma resolve_code_first:
  assumes "\<forall>r \<in> set before. source_name r \<noteq> Some ''mitre-attack''"
    and "source_name ref = Some ''mitre-attack''"
  shows "resolve_code (before @ ref # after) = get (external_id ref) ''''"
  using assms by (induction before) auto

lemma resolve_code_none:
  assumes "\<forall>r \<in> set refs. source_name r \<noteq> Some ''mitre-attack''"
  shows "resolve_code refs = ''''"
  using assms by (induction refs) auto

lemma example_output:
  "load_attack ''enterprise-attack'' example_stix example_matrix [''mitre-attack'']
   = Inr [\<lparr>tactic_name = ''Initial Access'', tactic_id = ''TA0001'',
            technique_name = ''Phishing'', technique_id = ''T1566''\<rparr>,
          \<lparr>tactic_name = ''Execution'', tactic_id = ''TA0002'',
            technique_name = ''Command Line'', technique_id = ''T1059''\<rparr>,
          \<lparr>tactic_name = ''Execution'', tactic_id = ''TA0002'',
            technique_name = ''Scripting'', technique_id = ''T1064''\<rparr>,
          \<lparr>tactic_name = ''Impact'', tactic_id = ''TA0040'',
            technique_name = ''Scripting'', technique_id = ''T1064''\<rparr>]"
  by (simp add: eval_defs example_defs less_eq_prod_def)

lemma load_attack_raises_iff:
  "(\<exists>e. load_attack domain_name stix_data matrix_data kill_chain_key = Inl e)
     \<longleftrightarrow> rows_of domain_name stix_data kill_chain_key = []"
  by (simp add: load_attack_eq)

section \<open>The claims\<close>

subsection \<open>C1: the function raises when no row is collected\<close>

text \<open>
  C1 says that the function returns normally on every input, missing fields leading to
  omission only, and also when no row is retained. The function does not: the
  attack-pattern below lacks \<^verbatim>\<open>external_references\<close>, so it is omitted, no row is
  collected, the data frame has no column and line 92 raises
  \<^verbatim>\<open>KeyError: 'tactic_name'\<close>. By \<open>load_attack_raises_iff\<close> the function raises
  exactly when no row is collected.
\<close>

theorem no_row_raises:
  "load_attack ''enterprise-attack''
     \<lparr>objects = Some
        [a_tactic ''x-mitre-tactic--2'' ''Execution'' (Some ''execution'') ''TA0002'',
         (a_technique ''Scripting'' ''T100'' [''enterprise-attack'']
            [a_phase ''mitre-attack'' (Some ''execution'')] None)
           \<lparr>external_references := None\<rparr>]\<rparr>
     \<lparr>objects = Some [a_matrix [''x-mitre-tactic--2'']]\<rparr>
     [''mitre-attack'', ''mitre-enterprise-attack'']
   = Inl (KeyError ''tactic_name'')"
  by (simp add: eval_defs)

subsection \<open>C2: no sub-technique in the output\<close>

text \<open>
  C2: no row of the output has a \<^verbatim>\<open>technique_id\<close> that is empty or contains a dot, and
  an attack-pattern whose code is empty or contains a dot appends no row, whatever its
  domains and flags, the requested domain and the tables are.
\<close>

theorem no_subtechnique_rows:
  "(load_attack domain_name stix_data matrix_data kill_chain_key = Inr df \<longrightarrow>
      (\<forall>r \<in> set df. technique_id r \<noteq> '''' \<and> CHR ''.'' \<notin> set (technique_id r)))
   \<and> (mitre_code obj = '''' \<or> CHR ''.'' \<in> set (mitre_code obj) \<longrightarrow>
        technique_rows d k by_short obj = [])"
proof (intro conjI impI ballI)
  fix r
  assume "load_attack domain_name stix_data matrix_data kill_chain_key = Inr df"
    and "r \<in> set df"
  then have "r \<in> set (rows_of domain_name stix_data kill_chain_key)"
    using load_attack_Inr(1) by blast
  then obtain o' where
    "r \<in> set (technique_rows domain_name kill_chain_key
        (snd (tactic_tables (get (objects stix_data) []))) o')"
    by (auto simp: rows_of_iff)
  from technique_rows_code(1,2)[OF this]
  show "technique_id r \<noteq> ''''" and "CHR ''.'' \<notin> set (technique_id r)"
    by (simp_all add: retained_def)
next
  assume "mitre_code obj = '''' \<or> CHR ''.'' \<in> set (mitre_code obj)"
  then show "technique_rows d k by_short obj = []"
    by (auto simp: technique_rows_def)
qed

theorem no_subtechnique_rows_witness:
  "(\<exists>df. load_attack ''enterprise-attack'' example_stix example_matrix [''mitre-attack'']
            = Inr df
         \<and> list_all (\<lambda>r. technique_id r \<noteq> '''' \<and> CHR ''.'' \<notin> set (technique_id r)) df)
   \<and> CHR ''.'' \<in> set (mitre_code sub_technique)
   \<and> technique_rows ''enterprise-attack'' [''mitre-attack'']
        (snd (tactic_tables example_tactics)) sub_technique = []"
proof -
  have code: "CHR ''.'' \<in> set (mitre_code sub_technique)"
    by (simp add: eval_defs example_defs)
  note inst = no_subtechnique_rows[of "''enterprise-attack''" example_stix example_matrix
      "[''mitre-attack'']" _ sub_technique "''enterprise-attack''" "[''mitre-attack'']"
      "snd (tactic_tables example_tactics)"]
  from inst example_output code show ?thesis
    by (auto simp: list_all_iff)
qed

subsection \<open>C3: revoked and deprecated techniques contribute nothing\<close>

text \<open>
  C3: an attack-pattern whose \<^verbatim>\<open>revoked\<close> or \<^verbatim>\<open>x_mitre_deprecated\<close> is true appends no
  row, whatever its other fields are; the function gives the same result on a bundle
  with the object, at any place, as on the bundle without it.
\<close>

theorem revoked_contributes_nothing:
  assumes "obj_type obj = Some ''attack-pattern''"
    and "truthy (revoked obj) \<or> truthy (x_mitre_deprecated obj)"
  shows "technique_rows domain_name kill_chain_key by_short obj = []
       \<and> load_attack domain_name \<lparr>objects = Some (pre @ obj # post)\<rparr> matrix_data kill_chain_key
         = load_attack domain_name \<lparr>objects = Some (pre @ post)\<rparr> matrix_data kill_chain_key"
proof -
  have none: "technique_rows domain_name kill_chain_key t obj = []" for t
    using assms(2) by (auto simp: technique_rows_def)
  from assms(1) have "obj_type obj \<noteq> Some ''x-mitre-tactic''" by simp
  from load_attack_skip[OF this none] none show ?thesis by simp
qed

theorem revoked_contributes_nothing_witness:
  "obj_type revoked_technique = Some ''attack-pattern''
   \<and> truthy (revoked revoked_technique)
   \<and> load_attack ''enterprise-attack''
        \<lparr>objects = Some (example_tactics @ revoked_technique # example_techniques)\<rparr>
        example_matrix [''mitre-attack'']
     = load_attack ''enterprise-attack''
        \<lparr>objects = Some (example_tactics @ example_techniques)\<rparr>
        example_matrix [''mitre-attack'']"
proof -
  have h1: "obj_type revoked_technique = Some ''attack-pattern''"
    by (simp add: eval_defs example_defs)
  have h2: "truthy (revoked revoked_technique)"
    by (simp add: eval_defs example_defs)
  from h2 have h3: "truthy (revoked revoked_technique) \<or> truthy (x_mitre_deprecated revoked_technique)"
    by simp
  from revoked_contributes_nothing[OF h1 h3] h1 h2 show ?thesis by simp
qed

subsection \<open>C4: no two rows of the output are equal\<close>

text \<open>
  C4: the data frame that the function returns has at most one row for each tuple of
  tactic name, tactic id, technique name and technique id.
\<close>

theorem output_rows_distinct:
  assumes "load_attack domain_name stix_data matrix_data kill_chain_key = Inr df"
  shows "distinct df"
  using load_attack_Inr(2)[OF assms] .

theorem output_rows_distinct_witness:
  "rows_of ''enterprise-attack'' example_stix [''mitre-attack'']
   = [\<lparr>tactic_name = ''Execution'', tactic_id = ''TA0002'',
         technique_name = ''Scripting'', technique_id = ''T1064''\<rparr>,
      \<lparr>tactic_name = ''Impact'', tactic_id = ''TA0040'',
         technique_name = ''Scripting'', technique_id = ''T1064''\<rparr>,
      \<lparr>tactic_name = ''Initial Access'', tactic_id = ''TA0001'',
         technique_name = ''Phishing'', technique_id = ''T1566''\<rparr>,
      \<lparr>tactic_name = ''Execution'', tactic_id = ''TA0002'',
         technique_name = ''Command Line'', technique_id = ''T1059''\<rparr>,
      \<lparr>tactic_name = ''Execution'', tactic_id = ''TA0002'',
         technique_name = ''Command Line'', technique_id = ''T1059''\<rparr>]
   \<and> (\<exists>df. load_attack ''enterprise-attack'' example_stix example_matrix [''mitre-attack'']
              = Inr df \<and> length df = 4 \<and> distinct df)"
proof -
  have rows: "rows_of ''enterprise-attack'' example_stix [''mitre-attack'']
   = [\<lparr>tactic_name = ''Execution'', tactic_id = ''TA0002'',
         technique_name = ''Scripting'', technique_id = ''T1064''\<rparr>,
      \<lparr>tactic_name = ''Impact'', tactic_id = ''TA0040'',
         technique_name = ''Scripting'', technique_id = ''T1064''\<rparr>,
      \<lparr>tactic_name = ''Initial Access'', tactic_id = ''TA0001'',
         technique_name = ''Phishing'', technique_id = ''T1566''\<rparr>,
      \<lparr>tactic_name = ''Execution'', tactic_id = ''TA0002'',
         technique_name = ''Command Line'', technique_id = ''T1059''\<rparr>,
      \<lparr>tactic_name = ''Execution'', tactic_id = ''TA0002'',
         technique_name = ''Command Line'', technique_id = ''T1059''\<rparr>]"
    by (simp add: rows_of_def eval_defs example_defs)
  from output_rows_distinct[OF example_output] example_output rows show ?thesis
    by simp
qed

subsection \<open>C5: the order of the output\<close>




subsection \<open>C6: the two sources of associations are unioned\<close>

text \<open>
  C6: when a retained attack-pattern names the same tactic shortname in an accepted
  kill-chain phase and in \<^verbatim>\<open>x_mitre_tactics\<close>, and the shortname is that of a tactic,
  the function returns a data frame with exactly one row for that tactic and technique,
  although the row was collected at least twice.
\<close>

theorem association_sources_unioned:
  assumes "obj \<in> set (get (objects stix_data) [])"
    and "retained domain_name obj"
    and "phase \<in> set (get (kill_chain_phases obj) [])"
    and "kill_chain_name phase \<in> Some ` set kill_chain_key"
    and "phase_name phase = Some short"
    and "short \<in> set (get (x_mitre_tactics obj) [])"
    and "snd (tactic_tables (get (objects stix_data) [])) (Some short) = Some t"
  shows "\<exists>df. load_attack domain_name stix_data matrix_data kill_chain_key = Inr df
           \<and> count_list df (mk_row t (get (name obj) '''') (mitre_code obj)) = 1
           \<and> 2 \<le> count_list (rows_of domain_name stix_data kill_chain_key)
                     (mk_row t (get (name obj) '''') (mitre_code obj))"
proof -
  let ?by_short = "snd (tactic_tables (get (objects stix_data) []))"
  let ?r = "mk_row t (get (name obj) '''') (mitre_code obj)"
  let ?phases = "phase_rows kill_chain_key ?by_short (get (name obj) '''') (mitre_code obj)
                   (get (kill_chain_phases obj) [])"
  let ?tactics = "tactic_rows ?by_short (get (name obj) '''') (mitre_code obj)
                    (get (x_mitre_tactics obj) [])"
  have "?r \<in> set ?phases"
    using assms(3,4,5,7) by (auto simp: in_phase_rows)
  then have one: "1 \<le> count_list ?phases ?r" by (rule count_list_pos)
  have "?r \<in> set ?tactics"
    using assms(6,7) by (auto simp: in_tactic_rows)
  then have two: "1 \<le> count_list ?tactics ?r" by (rule count_list_pos)
  have "technique_rows domain_name kill_chain_key ?by_short obj = ?phases @ ?tactics"
    using assms(2) by (simp add: technique_rows_retained)
  with one two
  have "2 \<le> count_list (technique_rows domain_name kill_chain_key ?by_short obj) ?r"
    by simp
  with count_list_collect_rows[OF assms(1)]
  have twice: "2 \<le> count_list (rows_of domain_name stix_data kill_chain_key) ?r"
    unfolding rows_of_def by (rule order_trans[rotated])
  then have mem: "?r \<in> set (rows_of domain_name stix_data kill_chain_key)"
    using count_list_0_iff[of "rows_of domain_name stix_data kill_chain_key" ?r] by auto
  then have "rows_of domain_name stix_data kill_chain_key \<noteq> []" by auto
  from load_attack_returns[OF this] obtain df where
    df: "load_attack domain_name stix_data matrix_data kill_chain_key = Inr df" by blast
  from load_attack_Inr(1,2)[OF df] mem have "count_list df ?r = 1"
    by (simp add: count_list_distinct)
  with df twice show ?thesis by blast
qed

theorem association_sources_unioned_witness:
  "\<exists>df. load_attack ''enterprise-attack'' example_stix example_matrix [''mitre-attack'']
           = Inr df
       \<and> count_list df
           \<lparr>tactic_name = ''Execution'', tactic_id = ''TA0002'',
             technique_name = ''Command Line'', technique_id = ''T1059''\<rparr> = 1
       \<and> 2 \<le> count_list (rows_of ''enterprise-attack'' example_stix [''mitre-attack''])
           \<lparr>tactic_name = ''Execution'', tactic_id = ''TA0002'',
             technique_name = ''Command Line'', technique_id = ''T1059''\<rparr>"
proof -
  let ?obj = "a_technique ''Command Line'' ''T1059'' [''enterprise-attack'']
        [a_phase ''mitre-attack'' (Some ''execution'')] (Some [''execution''])"
  let ?phase = "a_phase ''mitre-attack'' (Some ''execution'')"
  let ?t = "\<lparr>tactic_name = ''Execution'', tactic_id = ''TA0002''\<rparr>"
  have h1: "?obj \<in> set (get (objects example_stix) [])"
    by (simp add: get_def example_defs)
  have h2: "retained ''enterprise-attack'' ?obj"
    by (simp add: retained_def eval_defs)
  have h3: "?phase \<in> set (get (kill_chain_phases ?obj) [])"
    by (simp add: eval_defs)
  have h4: "kill_chain_name ?phase \<in> Some ` set [''mitre-attack'']"
    by (simp add: eval_defs)
  have h5: "phase_name ?phase = Some ''execution''"
    by (simp add: eval_defs)
  have h6: "''execution'' \<in> set (get (x_mitre_tactics ?obj) [])"
    by (simp add: eval_defs)
  have h7: "snd (tactic_tables (get (objects example_stix) [])) (Some ''execution'') = Some ?t"
    by (simp add: eval_defs example_defs)
  from association_sources_unioned[OF h1 h2 h3 h4 h5 h6 h7, of example_matrix]
  show ?thesis by (simp add: eval_defs)
qed

subsection \<open>C7: the scenario of one row\<close>

text \<open>
  C7: the matrix refers to the tactics \<open>t1\<close>, named Initial Access, and \<open>t2\<close>, named
  Execution, with the shortnames ATT&CK gives them; the bundle holds the two tactics
  and one attack-pattern of code T100, neither revoked nor deprecated, whose domains
  contain enterprise-attack and whose one kill-chain phase is execution in the kill
  chain mitre-attack. For the domain enterprise-attack and the kill chain mitre-attack
  the function returns exactly one row: Execution, the code of Execution, the name of
  the attack-pattern, T100.
\<close>

theorem scenario_one_row:
  "load_attack ''enterprise-attack''
     \<lparr>objects = Some
        [a_tactic t1 ''Initial Access'' (Some ''initial-access'') code1,
         a_tactic t2 ''Execution'' (Some ''execution'') code2,
         a_technique n ''T100'' (''enterprise-attack'' # more_domains)
           [a_phase ''mitre-attack'' (Some ''execution'')] None]\<rparr>
     \<lparr>objects = Some [a_matrix [t1, t2]]\<rparr>
     [''mitre-attack'']
   = Inr [\<lparr>tactic_name = ''Execution'', tactic_id = code2,
           technique_name = n, technique_id = ''T100''\<rparr>]"
  by (simp add: eval_defs)

subsection \<open>C8: the scenario of another domain\<close>

text \<open>
  C8 says that the same scenario with \<^verbatim>\<open>x_mitre_domains = ["ics-attack"]\<close> yields an
  empty result, returned normally. No row is collected indeed, but the function does
  not return: line 92 raises \<^verbatim>\<open>KeyError: 'tactic_name'\<close>.
\<close>

theorem scenario_other_domain_raises:
  "load_attack ''enterprise-attack''
     \<lparr>objects = Some
        [a_tactic t1 ''Initial Access'' (Some ''initial-access'') code1,
         a_tactic t2 ''Execution'' (Some ''execution'') code2,
         a_technique n ''T100'' [''ics-attack'']
           [a_phase ''mitre-attack'' (Some ''execution'')] None]\<rparr>
     \<lparr>objects = Some [a_matrix [t1, t2]]\<rparr>
     [''mitre-attack'']
   = Inl (KeyError ''tactic_name'')"
  by (simp add: eval_defs)

subsection \<open>C9: the code is that of the first mitre-attack reference\<close>

text \<open>
  C9: the code of an object is the \<^verbatim>\<open>external_id\<close> (the empty string when the key is
  absent) of the first of its external references whose \<^verbatim>\<open>source_name\<close> is
  \<^verbatim>\<open>mitre-attack\<close>, whatever follows that reference, and the empty string when there
  is no such reference. That code is the \<^verbatim>\<open>tactic_id\<close> which line 32 and line 37 store
  for a tactic, and the \<^verbatim>\<open>technique_id\<close> of every row of an attack-pattern.
\<close>

theorem code_is_first_mitre_reference:
  "(external_references obj = Some (before @ ref # after)
      \<and> (\<forall>r \<in> set before. source_name r \<noteq> Some ''mitre-attack'')
      \<and> source_name ref = Some ''mitre-attack''
     \<longrightarrow> mitre_code obj = get (external_id ref) '''')
   \<and> ((\<forall>r \<in> set (get (external_references obj) []). source_name r \<noteq> Some ''mitre-attack'')
     \<longrightarrow> mitre_code obj = '''')
   \<and> (obj_type obj = Some ''x-mitre-tactic''
     \<longrightarrow> map_option tactic_id (fst (tactic_step tabs obj) (stix_id obj)) = Some (mitre_code obj)
       \<and> map_option tactic_id (snd (tactic_step tabs obj) (x_mitre_shortname obj))
           = Some (mitre_code obj))
   \<and> (r \<in> set (technique_rows domain_name kill_chain_key by_short obj)
     \<longrightarrow> technique_id r = mitre_code obj)"
proof (intro conjI impI)
  assume "external_references obj = Some (before @ ref # after)
      \<and> (\<forall>r \<in> set before. source_name r \<noteq> Some ''mitre-attack'')
      \<and> source_name ref = Some ''mitre-attack''"
  then show "mitre_code obj = get (external_id ref) ''''"
    using resolve_code_first[of before ref after]
    by (simp add: mitre_code_def get_def[of "Some (before @ ref # after)"])
next
  assume "\<forall>r \<in> set (get (external_references obj) []). source_name r \<noteq> Some ''mitre-attack''"
  then show "mitre_code obj = ''''"
    by (simp add: mitre_code_def resolve_code_none)
next
  assume "obj_type obj = Some ''x-mitre-tactic''"
  then show "map_option tactic_id (fst (tactic_step tabs obj) (stix_id obj))
      = Some (mitre_code obj)"
    and "map_option tactic_id (snd (tactic_step tabs obj) (x_mitre_shortname obj))
      = Some (mitre_code obj)"
    by (simp_all add: tactic_step_def Let_def)
next
  assume "r \<in> set (technique_rows domain_name kill_chain_key by_short obj)"
  then show "technique_id r = mitre_code obj"
    by (rule technique_rows_code(2))
qed

theorem code_is_first_mitre_reference_witness:
  "mitre_code several_references = ''TA0002''
   \<and> mitre_code foreign_references = ''''
   \<and> map_option tactic_id
        (fst (tactic_step (Map.empty, Map.empty) several_references)
           (Some ''x-mitre-tactic--2'')) = Some ''TA0002''
   \<and> map_option tactic_id
        (snd (tactic_step (Map.empty, Map.empty) several_references)
           (Some ''execution'')) = Some ''TA0002''
   \<and> list_all (\<lambda>r. technique_id r = ''T1059'')
        (technique_rows ''enterprise-attack'' [''mitre-attack'']
           (snd (tactic_tables example_tactics))
           (a_technique ''Command Line'' ''T1059'' [''enterprise-attack'']
              [a_phase ''mitre-attack'' (Some ''execution'')] (Some [''execution''])))"
proof -
  let ?before = "[\<lparr>source_name = Some ''capec'', external_id = Some ''CAPEC-1''\<rparr>]"
  let ?ref = "\<lparr>source_name = Some ''mitre-attack'', external_id = Some ''TA0002''\<rparr>"
  let ?after = "[\<lparr>source_name = Some ''mitre-attack'', external_id = Some ''TA9999''\<rparr>]"
  let ?tech = "a_technique ''Command Line'' ''T1059'' [''enterprise-attack'']
              [a_phase ''mitre-attack'' (Some ''execution'')] (Some [''execution''])"
  have a: "external_references several_references = Some (?before @ ?ref # ?after)
      \<and> (\<forall>r \<in> set ?before. source_name r \<noteq> Some ''mitre-attack'')
      \<and> source_name ?ref = Some ''mitre-attack''"
    by (simp add: example_defs a_tactic_def)
  have b: "\<forall>r \<in> set (get (external_references foreign_references) []).
      source_name r \<noteq> Some ''mitre-attack''"
    by (simp add: example_defs a_technique_def get_def)
  have c: "obj_type several_references = Some ''x-mitre-tactic''"
    by (simp add: example_defs a_tactic_def)
  have ids: "stix_id several_references = Some ''x-mitre-tactic--2''"
    "x_mitre_shortname several_references = Some ''execution''"
    by (simp_all add: example_defs a_tactic_def)
  have code: "mitre_code ?tech = ''T1059''"
    by (simp add: eval_defs)
  note first = code_is_first_mitre_reference[of several_references ?before ?ref ?after
      "(Map.empty, Map.empty)" _ "''enterprise-attack''" "[''mitre-attack'']"
      "snd (tactic_tables example_tactics)"]
  note second = code_is_first_mitre_reference[of foreign_references]
  note third = code_is_first_mitre_reference[of ?tech _ _ _ _ _ "''enterprise-attack''"
      "[''mitre-attack'']" "snd (tactic_tables example_tactics)"]
  have 1: "mitre_code several_references = ''TA0002''"
    using first a by (simp add: get_def)
  have 2: "mitre_code foreign_references = ''''"
    using second b by blast
  have 3: "map_option tactic_id
        (fst (tactic_step (Map.empty, Map.empty) several_references)
           (Some ''x-mitre-tactic--2'')) = Some ''TA0002''"
     and 4: "map_option tactic_id
        (snd (tactic_step (Map.empty, Map.empty) several_references)
           (Some ''execution'')) = Some ''TA0002''"
    using first c ids 1 by simp_all
  have 5: "list_all (\<lambda>r. technique_id r = ''T1059'')
        (technique_rows ''enterprise-attack'' [''mitre-attack'']
           (snd (tactic_tables example_tactics)) ?tech)"
    unfolding list_all_iff using third code by auto
  from 1 2 3 4 5 show ?thesis by blast
qed

subsection \<open>C10: a tactic without shortname and a phase without name\<close>

text \<open>
  C10 says that a tactic without \<^verbatim>\<open>x_mitre_shortname\<close> is stored under the key
  \<^verbatim>\<open>None\<close> and that a retained attack-pattern with a phase of an accepted kill chain and
  without \<^verbatim>\<open>phase_name\<close> is paired with that tactic. That fails for a tactic which a
  later tactic without shortname follows: line 37 overwrites the entry. In
  \<open>two_shortnameless_stix\<close> the tactic First meets the conditions of the claim, and the
  function returns the row of the tactic Second only.
\<close>

theorem shortnameless_tactic_overwritten_counterexample:
  "a_tactic ''x-mitre-tactic--8'' ''First'' None ''TA1''
     \<in> set (get (objects two_shortnameless_stix) [])
   \<and> obj_type (a_tactic ''x-mitre-tactic--8'' ''First'' None ''TA1'') = Some ''x-mitre-tactic''
   \<and> x_mitre_shortname (a_tactic ''x-mitre-tactic--8'' ''First'' None ''TA1'') = None
   \<and> a_technique ''Scripting'' ''T1064'' [''enterprise-attack'']
        [a_phase ''mitre-attack'' None] None \<in> set (get (objects two_shortnameless_stix) [])
   \<and> retained ''enterprise-attack''
        (a_technique ''Scripting'' ''T1064'' [''enterprise-attack'']
           [a_phase ''mitre-attack'' None] None)
   \<and> a_phase ''mitre-attack'' None
       \<in> set (get (kill_chain_phases
                    (a_technique ''Scripting'' ''T1064'' [''enterprise-attack'']
                       [a_phase ''mitre-attack'' None] None)) [])
   \<and> kill_chain_name (a_phase ''mitre-attack'' None) \<in> Some ` set [''mitre-attack'']
   \<and> phase_name (a_phase ''mitre-attack'' None) = None
   \<and> snd (tactic_tables (get (objects two_shortnameless_stix) [])) None
       = Some \<lparr>tactic_name = ''Second'', tactic_id = ''TA2''\<rparr>
   \<and> load_attack ''enterprise-attack'' two_shortnameless_stix example_matrix
        [''mitre-attack'']
       = Inr [\<lparr>tactic_name = ''Second'', tactic_id = ''TA2'',
                technique_name = ''Scripting'', technique_id = ''T1064''\<rparr>]
   \<and> \<lparr>tactic_name = ''First'', tactic_id = ''TA1'',
        technique_name = ''Scripting'', technique_id = ''T1064''\<rparr>
       \<notin> set [\<lparr>tactic_name = ''Second'', tactic_id = ''TA2'',
                  technique_name = ''Scripting'', technique_id = ''T1064''\<rparr>]"
  by (simp add: eval_defs example_defs retained_def)

text \<open>
  C10 as amended: the last tactic of the bundle without \<^verbatim>\<open>x_mitre_shortname\<close> is the
  one stored under the key \<^verbatim>\<open>None\<close>; a retained attack-pattern with a phase of an
  accepted kill chain and without \<^verbatim>\<open>phase_name\<close> then finds that tactic, and the
  function returns a data frame with the row that pairs that tactic with the
  technique.
\<close>

theorem last_shortnameless_tactic_joins_phase_without_name:
  assumes "get (objects stix_data) [] = pre @ tac # post"
    and "obj_type tac = Some ''x-mitre-tactic''"
    and "x_mitre_shortname tac = None"
    and "\<forall>later \<in> set post.
           \<not> (obj_type later = Some ''x-mitre-tactic'' \<and> x_mitre_shortname later = None)"
    and "obj \<in> set (get (objects stix_data) [])"
    and "retained domain_name obj"
    and "phase \<in> set (get (kill_chain_phases obj) [])"
    and "kill_chain_name phase \<in> Some ` set kill_chain_key"
    and "phase_name phase = None"
  shows "\<exists>df. load_attack domain_name stix_data matrix_data kill_chain_key = Inr df
           \<and> snd (tactic_tables (get (objects stix_data) [])) None
               = Some \<lparr>tactic_name = get (name tac) '''', tactic_id = mitre_code tac\<rparr>
           \<and> \<lparr>tactic_name = get (name tac) '''', tactic_id = mitre_code tac,
               technique_name = get (name obj) '''', technique_id = mitre_code obj\<rparr> \<in> set df"
proof -
  let ?objs = "get (objects stix_data) []"
  let ?by_short = "snd (tactic_tables ?objs)"
  let ?t = "\<lparr>tactic_name = get (name tac) '''', tactic_id = mitre_code tac\<rparr>"
  let ?r = "mk_row ?t (get (name obj) '''') (mitre_code obj)"
  from assms(4) have "\<forall>later \<in> set post.
      \<not> (obj_type later = Some ''x-mitre-tactic''
         \<and> x_mitre_shortname later = x_mitre_shortname tac)"
    by (simp add: assms(3))
  from by_shortname_at_last[OF assms(2) this, of pre]
  have tab: "?by_short None = Some ?t"
    by (simp add: assms(1,3))
  have "?r \<in> set (phase_rows kill_chain_key ?by_short (get (name obj) '''') (mitre_code obj)
                   (get (kill_chain_phases obj) []))"
    using assms(7,8,9) tab by (auto simp: in_phase_rows)
  then have "?r \<in> set (technique_rows domain_name kill_chain_key ?by_short obj)"
    using assms(6) by (simp add: technique_rows_retained)
  with assms(5) have mem: "?r \<in> set (rows_of domain_name stix_data kill_chain_key)"
    by (auto simp: rows_of_iff)
  then have "rows_of domain_name stix_data kill_chain_key \<noteq> []" by auto
  from load_attack_returns[OF this] obtain df where
    df: "load_attack domain_name stix_data matrix_data kill_chain_key = Inr df" by blast
  from load_attack_Inr(1)[OF df] mem have "?r \<in> set df" by simp
  then have "\<lparr>tactic_name = get (name tac) '''', tactic_id = mitre_code tac,
      technique_name = get (name obj) '''', technique_id = mitre_code obj\<rparr> \<in> set df"
    by (simp add: mk_row_def)
  with df tab show ?thesis by blast
qed

theorem last_shortnameless_tactic_joins_phase_without_name_witness:
  "snd (tactic_tables (get (objects two_shortnameless_stix) [])) None
     = Some \<lparr>tactic_name = ''Second'', tactic_id = ''TA2''\<rparr>
   \<and> (\<exists>df. load_attack ''enterprise-attack'' two_shortnameless_stix example_matrix
               [''mitre-attack''] = Inr df
          \<and> \<lparr>tactic_name = ''Second'', tactic_id = ''TA2'',
               technique_name = ''Scripting'', technique_id = ''T1064''\<rparr> \<in> set df)"
proof -
  let ?first = "a_tactic ''x-mitre-tactic--8'' ''First'' None ''TA1''"
  let ?tac = "a_tactic ''x-mitre-tactic--9'' ''Second'' None ''TA2''"
  let ?obj = "a_technique ''Scripting'' ''T1064'' [''enterprise-attack'']
           [a_phase ''mitre-attack'' None] None"
  let ?phase = "a_phase ''mitre-attack'' None"
  have h1: "get (objects two_shortnameless_stix) [] = [?first] @ ?tac # [?obj]"
    by (simp add: get_def example_defs)
  have h2: "obj_type ?tac = Some ''x-mitre-tactic''" by (simp add: a_tactic_def)
  have h3: "x_mitre_shortname ?tac = None" by (simp add: a_tactic_def)
  have h4: "\<forall>later \<in> set [?obj].
      \<not> (obj_type later = Some ''x-mitre-tactic'' \<and> x_mitre_shortname later = None)"
    by (simp add: a_technique_def)
  have h5: "?obj \<in> set (get (objects two_shortnameless_stix) [])"
    by (simp add: get_def example_defs)
  have h6: "retained ''enterprise-attack'' ?obj"
    by (simp add: retained_def eval_defs)
  have h7: "?phase \<in> set (get (kill_chain_phases ?obj) [])" by (simp add: eval_defs)
  have h8: "kill_chain_name ?phase \<in> Some ` set [''mitre-attack'']" by (simp add: eval_defs)
  have h9: "phase_name ?phase = None" by (simp add: eval_defs)
  have nm: "get (name ?tac) '''' = ''Second''" "mitre_code ?tac = ''TA2''"
    "get (name ?obj) '''' = ''Scripting''" "mitre_code ?obj = ''T1064''"
    by (simp_all add: eval_defs)
  from last_shortnameless_tactic_joins_phase_without_name[OF h1 h2 h3 h4 h5 h6 h7 h8 h9,
      of example_matrix]
  show ?thesis unfolding nm by blast
qed

end
